theory Spec2Isabelle
  imports Main "HOL-Library.Sublist"
begin

section \<open>JavaScript values and errors\<close>

text \<open>
  The values the query layer handles are JSON-like: undefined, null, booleans, numbers,
  strings, arrays and plain objects. Numbers are the integers a double holds exactly
  (magnitude below \<open>2^53\<close>, which \<open>toString\<close> writes in plain decimal) together with
  NaN (the value \<open>undefined + 1\<close> produces); strings are ASCII; an object is the list
  of its own data properties in enumeration order, with pairwise distinct keys. Functions,
  regular expressions, infinities and fractional numbers are outside this fragment.
\<close>

datatype jsval =
    JUndefined
  | JNull
  | JBool bool
  | JNum int
  | JNaN
  | JStr string
  | JArr "jsval list"
  | JObj "(string \<times> jsval) list"

text \<open>
  What a \<open>throw\<close> (or a rejected promise of an \<open>async\<close> method) carries:
  \<open>Error msg\<close> is \<open>new Error (msg)\<close>, \<open>TypeError\<close> and \<open>ReferenceError x\<close> are the
  errors the language itself raises (calling what is not a function, reading a property of
  null or undefined; reading the undeclared identifier \<open>x\<close>).
\<close>

datatype error = Error string | TypeError | ReferenceError string

subsection \<open>Decimal rendering of integers\<close>

definition digit_char :: "nat \<Rightarrow> char" where
  "digit_char d = char_of (48 + d)"

fun nat_to_dec :: "nat \<Rightarrow> string" where
  "nat_to_dec n = (if n < 10 then [digit_char n] else nat_to_dec (n div 10) @ [digit_char (n mod 10)])"

declare nat_to_dec.simps [simp del]

definition int_to_dec :: "int \<Rightarrow> string" where
  "int_to_dec i = (if i < 0 then CHR ''-'' # nat_to_dec (nat (- i)) else nat_to_dec (nat i))"

subsection \<open>Conversions of the language\<close>

text \<open>
  \<open>ToString\<close> is the language's conversion of a value to a string. An array joins the
  conversions of its elements with a comma, an undefined or null element giving the empty
  string. A plain object gives \<open>[object Object]\<close> through \<open>Object.prototype.toString\<close>;
  an object with an own property \<open>toString\<close> shadows that method with a value that is
  not a function (the fragment has no functions), and the conversion raises TypeError.
\<close>

fun ToString :: "jsval \<Rightarrow> error + string"
  and join_elems :: "jsval list \<Rightarrow> error + string"
  and elem_string :: "jsval \<Rightarrow> error + string" where
  "ToString JUndefined = Inr ''undefined''"
| "ToString JNull = Inr ''null''"
| "ToString (JBool b) = Inr (if b then ''true'' else ''false'')"
| "ToString (JNum n) = Inr (int_to_dec n)"
| "ToString JNaN = Inr ''NaN''"
| "ToString (JStr s) = Inr s"
| "ToString (JArr xs) = join_elems xs"
| "ToString (JObj fs) =
     (case map_of fs ''toString'' of
        None \<Rightarrow> Inr ''[object Object]''
      | Some f \<Rightarrow> Inl TypeError)"
| "join_elems [] = Inr ''''"
| "join_elems (x # xs) =
     (case elem_string x of
        Inl e \<Rightarrow> Inl e
      | Inr s \<Rightarrow>
          (if xs = [] then Inr s
           else (case join_elems xs of
                   Inl e \<Rightarrow> Inl e
                 | Inr t \<Rightarrow> Inr (s @ '','' @ t))))"
| "elem_string JUndefined = Inr ''''"
| "elem_string JNull = Inr ''''"
| "elem_string (JBool b) = ToString (JBool b)"
| "elem_string (JNum n) = ToString (JNum n)"
| "elem_string JNaN = ToString JNaN"
| "elem_string (JStr s) = ToString (JStr s)"
| "elem_string (JArr xs) = join_elems xs"
| "elem_string (JObj fs) = ToString (JObj fs)"

text \<open>The method call \<open>v.toString ()\<close>: null and undefined have no properties.\<close>

definition call_toString :: "jsval \<Rightarrow> error + string" where
  "call_toString v =
     (case v of
        JUndefined \<Rightarrow> Inl TypeError
      | JNull \<Rightarrow> Inl TypeError
      | _ \<Rightarrow> ToString v)"

text \<open>\<open>v instanceof Object\<close>: true of arrays and objects, false of every primitive.\<close>

fun instanceof_Object :: "jsval \<Rightarrow> bool" where
  "instanceof_Object (JArr xs) = True"
| "instanceof_Object (JObj fs) = True"
| "instanceof_Object v = False"

text \<open>\<open>v == null\<close>: the loose comparison holds of null and of undefined only.\<close>

fun eq_null :: "jsval \<Rightarrow> bool" where
  "eq_null JUndefined = True"
| "eq_null JNull = True"
| "eq_null v = False"

text \<open>A parameter with a default value takes it when the argument is undefined (or omitted).\<close>

definition default_arg :: "jsval \<Rightarrow> jsval \<Rightarrow> jsval" where
  "default_arg d v = (if v = JUndefined then d else v)"

text \<open>
  \<open>ToPrimitive\<close> leaves a primitive alone; an array or object has \<open>valueOf\<close> return the
  object itself, so the conversion falls through to \<open>toString\<close>.
\<close>

definition ToPrimitive :: "jsval \<Rightarrow> error + jsval" where
  "ToPrimitive v =
     (if instanceof_Object v
      then (case ToString v of Inl e \<Rightarrow> Inl e | Inr s \<Rightarrow> Inr (JStr s))
      else Inr v)"

text \<open>
  \<open>ToNumber\<close> of a primitive. Parsing a string as a number (\<open>StringToNumber\<close>) can give
  a fractional or infinite number, which this fragment does not hold, so the parser is a
  parameter \<open>s2n\<close>.
\<close>

fun ToNumber :: "(string \<Rightarrow> jsval) \<Rightarrow> jsval \<Rightarrow> jsval" where
  "ToNumber s2n JUndefined = JNaN"
| "ToNumber s2n JNull = JNum 0"
| "ToNumber s2n (JBool b) = JNum (if b then 1 else 0)"
| "ToNumber s2n (JNum n) = JNum n"
| "ToNumber s2n JNaN = JNaN"
| "ToNumber s2n (JStr s) = s2n s"
| "ToNumber s2n v = JNaN"

text \<open>
  The sum and the difference of two numbers. The language computes in doubles: on the
  integers of magnitude at most \<open>2^53 - 1\<close> (\<open>Number.MAX_SAFE_INTEGER\<close>) a sum or a
  difference that stays within them is exact, and one that leaves them is rounded to a
  nearby double, which this fragment does not hold. There the model gives no outcome
  (\<open>None\<close>) rather than a number the code does not produce. NaN absorbs.
\<close>

definition safe_integer :: "int \<Rightarrow> bool" where
  "safe_integer n = (- 9007199254740991 \<le> n \<and> n \<le> 9007199254740991)"

fun num_add :: "jsval \<Rightarrow> jsval \<Rightarrow> jsval option" where
  "num_add (JNum a) (JNum b) =
     (if safe_integer a \<and> safe_integer b \<and> safe_integer (a + b)
      then Some (JNum (a + b)) else None)"
| "num_add a b = Some JNaN"

fun num_sub :: "jsval \<Rightarrow> jsval \<Rightarrow> jsval option" where
  "num_sub (JNum a) (JNum b) =
     (if safe_integer a \<and> safe_integer b \<and> safe_integer (a - b)
      then Some (JNum (a - b)) else None)"
| "num_sub a b = Some JNaN"

fun is_JStr :: "jsval \<Rightarrow> bool" where
  "is_JStr (JStr s) = True"
| "is_JStr v = False"

text \<open>
  The operator \<open>a + b\<close>: both operands to primitives; if either is a string the result
  is the concatenation of their string conversions, otherwise the sum of their numeric
  conversions. The outcome is an error raised, a value, or none where the sum leaves the
  fragment.
\<close>

definition js_add :: "(string \<Rightarrow> jsval) \<Rightarrow> jsval \<Rightarrow> jsval \<Rightarrow> (error + jsval) option" where
  "js_add s2n a b =
     (case ToPrimitive a of
        Inl e \<Rightarrow> Some (Inl e)
      | Inr pa \<Rightarrow>
          (case ToPrimitive b of
             Inl e \<Rightarrow> Some (Inl e)
           | Inr pb \<Rightarrow>
               (if is_JStr pa \<or> is_JStr pb
                then (case ToString pa of
                        Inl e \<Rightarrow> Some (Inl e)
                      | Inr sa \<Rightarrow>
                          (case ToString pb of
                             Inl e \<Rightarrow> Some (Inl e)
                           | Inr sb \<Rightarrow> Some (Inr (JStr (sa @ sb)))))
                else (case num_add (ToNumber s2n pa) (ToNumber s2n pb) of
                        None \<Rightarrow> None
                      | Some v \<Rightarrow> Some (Inr v)))))"

text \<open>The operator \<open>a - b\<close>: the difference of the numeric conversions of both operands.\<close>

definition js_sub :: "(string \<Rightarrow> jsval) \<Rightarrow> jsval \<Rightarrow> jsval \<Rightarrow> (error + jsval) option" where
  "js_sub s2n a b =
     (case ToPrimitive a of
        Inl e \<Rightarrow> Some (Inl e)
      | Inr pa \<Rightarrow>
          (case ToPrimitive b of
             Inl e \<Rightarrow> Some (Inl e)
           | Inr pb \<Rightarrow>
               (case num_sub (ToNumber s2n pa) (ToNumber s2n pb) of
                  None \<Rightarrow> None
                | Some v \<Rightarrow> Some (Inr v))))"

text \<open>
  Reading an identifier: the innermost binding of the function's scope, and a
  ReferenceError when no scope declares it. The module \<open>query.js\<close> declares only
  \<open>DbQuery\<close> at its top level, so a method's scope is its parameter list.
\<close>

definition resolve :: "(string \<times> jsval) list \<Rightarrow> string \<Rightarrow> error + jsval" where
  "resolve scope x =
     (case map_of scope x of
        None \<Rightarrow> Inl (ReferenceError x)
      | Some v \<Rightarrow> Inr v)"

section \<open>The query builder (src/query.js)\<close>

text \<open>
  An entity type is a class extending \<open>DbModel\<close>: its name and its static \<open>__db\<close>,
  the handle of the Db API it was registered with (\<open>None\<close> while unregistered, when
  \<open>__db\<close> is undefined).
\<close>

datatype ModelClass = ModelClass (cls_name: string) (cls_db: "nat option")

text \<open>
  The query parts pushed onto \<open>pts\<close>, one constructor per \<open>type\<close> tag, the fields in
  the order of the object literal in the source:
  \<open>Limit limitAmount\<close>, \<open>Skip skipAmount\<close>, \<open>Sort sortKey desc\<close>, \<open>Filter filter\<close>,
  \<open>WhereEquals prop value\<close> (the fields of \<open>match\<close>), \<open>Gt min key\<close>, \<open>Lt max key\<close>,
  \<open>Gte min key\<close>, \<open>Lte max key\<close>.
\<close>

datatype part =
    Limit jsval
  | Skip jsval
  | Sort jsval bool
  | Filter jsval
  | WhereEquals jsval jsval
  | Gt jsval jsval
  | Lt jsval jsval
  | Gte jsval jsval
  | Lte jsval jsval

text \<open>A \<open>DbQuery\<close> instance: the fields \<open>_Model\<close>, \<open>_db\<close> and \<open>pts\<close>.\<close>

record DbQuery =
  q_Model :: ModelClass
  q_db :: "nat option"
  pts :: "part list"

text \<open>
  What the Db API is asked to do. A request records the handle of the Db API it is sent
  to, the entity type and, for the calls that pass the builder, the builder's reference
  and the parts it holds when the call is made; \<open>RemoveById\<close> carries the identity passed.
\<close>

datatype dbcall =
    FindModels nat ModelClass nat "part list"
  | FindModel nat ModelClass nat "part list"
  | CountModels nat ModelClass nat "part list"
  | RemoveModels nat ModelClass nat "part list"
  | RemoveById nat ModelClass jsval

fun call_pts :: "dbcall \<Rightarrow> part list" where
  "call_pts (FindModels d M r ps) = ps"
| "call_pts (FindModel d M r ps) = ps"
| "call_pts (CountModels d M r ps) = ps"
| "call_pts (RemoveModels d M r ps) = ps"
| "call_pts (RemoveById d M i) = []"

text \<open>
  Builders are objects shared by reference: the world holds a store from references to
  builders, the next free reference, and the requests sent to Db APIs so far, oldest
  first. The Db API is outside these sources; it is a parameter \<open>plug\<close> that answers
  the latest request given all requests so far, with a value or with an error, and it
  only reads the builder it is handed.
\<close>

record world =
  heap :: "nat \<Rightarrow> DbQuery option"
  next_ref :: nat
  calls :: "dbcall list"

type_synonym plug = "dbcall list \<Rightarrow> error + jsval"

definition empty_world :: world where
  "empty_world = \<lparr>heap = Map.empty, next_ref = 0, calls = []\<rparr>"

text \<open>\<open>new DbQuery (Model, db)\<close>: a fresh builder with no parts.\<close>

definition new_DbQuery :: "ModelClass \<Rightarrow> nat option \<Rightarrow> world \<Rightarrow> nat \<times> world" where
  "new_DbQuery M db w =
     (next_ref w,
      w\<lparr>heap := (heap w)(next_ref w \<mapsto> \<lparr>q_Model = M, q_db = db, pts = []\<rparr>),
        next_ref := Suc (next_ref w)\<rparr>)"

text \<open>
  \<open>this.pts.push (p); return this;\<close> on the builder at reference \<open>r\<close>: the part goes to
  the end of the list held in the store, and the reference handed back is \<open>r\<close> itself.
  A reference to no object has no method to call.
\<close>

definition push_return :: "part \<Rightarrow> nat \<Rightarrow> world \<Rightarrow> (error + nat) \<times> world" where
  "push_return p r w =
     (case heap w r of
        None \<Rightarrow> (Inl TypeError, w)
      | Some q \<Rightarrow> (Inr r, w\<lparr>heap := (heap w)(r \<mapsto> q\<lparr>pts := pts q @ [p]\<rparr>)\<rparr>))"

text \<open>The world after part \<open>p\<close> has been pushed onto the builder \<open>q\<close> held at \<open>r\<close>.\<close>

definition pushed :: "part \<Rightarrow> nat \<Rightarrow> DbQuery \<Rightarrow> world \<Rightarrow> world" where
  "pushed p r q w = w\<lparr>heap := (heap w)(r \<mapsto> q\<lparr>pts := pts q @ [p]\<rparr>)\<rparr>"

definition DbQuery_limit :: "jsval \<Rightarrow> nat \<Rightarrow> world \<Rightarrow> (error + nat) \<times> world" where
  "DbQuery_limit amt r w = push_return (Limit amt) r w"

definition DbQuery_skip :: "jsval \<Rightarrow> nat \<Rightarrow> world \<Rightarrow> (error + nat) \<times> world" where
  "DbQuery_skip amt r w = push_return (Skip amt) r w"

text \<open>
  \<open>sort (key, directionStr = "desc")\<close>: the direction is turned into a string by its own
  \<open>toString\<close> and compared with \<open>===\<close> against the six accepted spellings.
\<close>

definition DbQuery_sort :: "jsval \<Rightarrow> jsval \<Rightarrow> nat \<Rightarrow> world \<Rightarrow> (error + nat) \<times> world" where
  "DbQuery_sort key direction r w =
     (case call_toString (default_arg (JStr ''desc'') direction) of
        Inl e \<Rightarrow> (Inl e, w)
      | Inr directionStr \<Rightarrow>
          (if directionStr = ''1'' \<or> directionStr = ''asc'' \<or> directionStr = ''ascending''
           then push_return (Sort key False) r w
           else if directionStr = ''-1'' \<or> directionStr = ''desc'' \<or> directionStr = ''descending''
           then push_return (Sort key True) r w
           else (Inl (Error ''Invalid sort value''), w)))"

text \<open>\<open>where (key, value = null)\<close>.\<close>

definition DbQuery_where :: "jsval \<Rightarrow> jsval \<Rightarrow> nat \<Rightarrow> world \<Rightarrow> (error + nat) \<times> world" where
  "DbQuery_where key value0 r w =
     (let value = default_arg JNull value0 in
      if instanceof_Object key \<and> eq_null value
      then push_return (Filter key) r w
      else push_return (WhereEquals key value) r w)"

definition DbQuery_gt :: "jsval \<Rightarrow> jsval \<Rightarrow> nat \<Rightarrow> world \<Rightarrow> (error + nat) \<times> world" where
  "DbQuery_gt key min_v r w = push_return (Gt min_v key) r w"

definition DbQuery_lt :: "jsval \<Rightarrow> jsval \<Rightarrow> nat \<Rightarrow> world \<Rightarrow> (error + nat) \<times> world" where
  "DbQuery_lt key max_v r w = push_return (Lt max_v key) r w"

definition DbQuery_gte :: "jsval \<Rightarrow> jsval \<Rightarrow> nat \<Rightarrow> world \<Rightarrow> (error + nat) \<times> world" where
  "DbQuery_gte key min_v r w = push_return (Gte min_v key) r w"

text \<open>
  \<open>lte (key, min) { this.pts.push ({ type: "lte", max: max, key: key }); return this; }\<close>:
  the parameters are \<open>key\<close> and \<open>min\<close>, and the object literal reads \<open>max\<close> before
  \<open>push\<close> is called.
\<close>

definition DbQuery_lte :: "jsval \<Rightarrow> jsval \<Rightarrow> nat \<Rightarrow> world \<Rightarrow> (error + nat) \<times> world" where
  "DbQuery_lte key min_v r w =
     (case resolve [(''key'', key), (''min'', min_v)] ''max'' of
        Inl e \<Rightarrow> (Inl e, w)
      | Inr max_v \<Rightarrow> push_return (Lte max_v key) r w)"

text \<open>
  A call \<open>this._db.method (this._Model, this)\<close>: it fails with TypeError when \<open>_db\<close> is
  undefined, and otherwise the request is recorded and the Db API's answer returned.
\<close>

definition db_call :: "plug \<Rightarrow> nat option \<Rightarrow> (nat \<Rightarrow> dbcall) \<Rightarrow> world \<Rightarrow> (error + jsval) \<times> world" where
  "db_call pl db mk w =
     (case db of
        None \<Rightarrow> (Inl TypeError, w)
      | Some d \<Rightarrow> (pl (calls w @ [mk d]), w\<lparr>calls := calls w @ [mk d]\<rparr>))"

definition DbQuery_find :: "plug \<Rightarrow> nat \<Rightarrow> world \<Rightarrow> (error + jsval) \<times> world" where
  "DbQuery_find pl r w =
     (case heap w r of
        None \<Rightarrow> (Inl TypeError, w)
      | Some q \<Rightarrow> db_call pl (q_db q) (\<lambda>d. FindModels d (q_Model q) r (pts q)) w)"

definition DbQuery_findOne :: "plug \<Rightarrow> nat \<Rightarrow> world \<Rightarrow> (error + jsval) \<times> world" where
  "DbQuery_findOne pl r w =
     (case heap w r of
        None \<Rightarrow> (Inl TypeError, w)
      | Some q \<Rightarrow> db_call pl (q_db q) (\<lambda>d. FindModel d (q_Model q) r (pts q)) w)"

definition DbQuery_count :: "plug \<Rightarrow> nat \<Rightarrow> world \<Rightarrow> (error + jsval) \<times> world" where
  "DbQuery_count pl r w =
     (case heap w r of
        None \<Rightarrow> (Inl TypeError, w)
      | Some q \<Rightarrow> db_call pl (q_db q) (\<lambda>d. CountModels d (q_Model q) r (pts q)) w)"

text \<open>\<open>remove\<close> awaits the Db API and returns nothing: its value is undefined.\<close>

definition DbQuery_remove :: "plug \<Rightarrow> nat \<Rightarrow> world \<Rightarrow> (error + jsval) \<times> world" where
  "DbQuery_remove pl r w =
     (case heap w r of
        None \<Rightarrow> (Inl TypeError, w)
      | Some q \<Rightarrow>
          (case db_call pl (q_db q) (\<lambda>d. RemoveModels d (q_Model q) r (pts q)) w of
             (Inl e, w') \<Rightarrow> (Inl e, w')
           | (Inr v, w') \<Rightarrow> (Inr JUndefined, w')))"

text \<open>
  The eight chain calls and the four terminal actions of the class as data, so that a
  property of all of them is one statement: \<open>chain c r w\<close> is the call \<open>c\<close> on the
  builder at \<open>r\<close>, \<open>terminal_action pl t r w\<close> the action \<open>t\<close>.
\<close>

datatype chain_call =
    Call_limit jsval
  | Call_skip jsval
  | Call_sort jsval jsval
  | Call_where jsval jsval
  | Call_gt jsval jsval
  | Call_lt jsval jsval
  | Call_gte jsval jsval
  | Call_lte jsval jsval

fun chain :: "chain_call \<Rightarrow> nat \<Rightarrow> world \<Rightarrow> (error + nat) \<times> world" where
  "chain (Call_limit amt) r w = DbQuery_limit amt r w"
| "chain (Call_skip amt) r w = DbQuery_skip amt r w"
| "chain (Call_sort key direction) r w = DbQuery_sort key direction r w"
| "chain (Call_where key v) r w = DbQuery_where key v r w"
| "chain (Call_gt key bound) r w = DbQuery_gt key bound r w"
| "chain (Call_lt key bound) r w = DbQuery_lt key bound r w"
| "chain (Call_gte key bound) r w = DbQuery_gte key bound r w"
| "chain (Call_lte key bound) r w = DbQuery_lte key bound r w"

datatype terminal_call = Call_find | Call_findOne | Call_count | Call_remove

fun terminal_action :: "plug \<Rightarrow> terminal_call \<Rightarrow> nat \<Rightarrow> world \<Rightarrow> (error + jsval) \<times> world" where
  "terminal_action pl Call_find r w = DbQuery_find pl r w"
| "terminal_action pl Call_findOne r w = DbQuery_findOne pl r w"
| "terminal_action pl Call_count r w = DbQuery_count pl r w"
| "terminal_action pl Call_remove r w = DbQuery_remove pl r w"

text \<open>The request a terminal action sends to the Db API \<open>d\<close> for a builder at \<open>r\<close>.\<close>

fun request_of :: "terminal_call \<Rightarrow> nat \<Rightarrow> ModelClass \<Rightarrow> nat \<Rightarrow> part list \<Rightarrow> dbcall" where
  "request_of Call_find d M r ps = FindModels d M r ps"
| "request_of Call_findOne d M r ps = FindModel d M r ps"
| "request_of Call_count d M r ps = CountModels d M r ps"
| "request_of Call_remove d M r ps = RemoveModels d M r ps"

text \<open>
  A method call by name, \<open>q.name (args)\<close>, as it is resolved on a builder.
  \<open>DbQuery_lookup\<close> is the class body of \<open>DbQuery\<close>: the twelve methods it defines,
  a missing argument being undefined. A name the class does not define and that is not
  a member every object inherits from \<open>Object.prototype\<close> is not a function on the
  builder (its own fields \<open>_Model\<close>, \<open>_db\<close> and \<open>pts\<close> cannot be called either):
  calling it raises TypeError. The inherited members are outside this model, and a call
  of one has no outcome here (\<open>None\<close>). A chain method returns the builder, a terminal
  action a value.
\<close>

datatype ret = Builder nat | Value jsval

definition arg :: "jsval list \<Rightarrow> nat \<Rightarrow> jsval" where
  "arg args i = (if i < length args then args ! i else JUndefined)"

definition chained :: "(error + nat) \<times> world \<Rightarrow> (error + ret) \<times> world" where
  "chained x = (case x of (Inl e, w) \<Rightarrow> (Inl e, w) | (Inr r, w) \<Rightarrow> (Inr (Builder r), w))"

definition terminal :: "(error + jsval) \<times> world \<Rightarrow> (error + ret) \<times> world" where
  "terminal x = (case x of (Inl e, w) \<Rightarrow> (Inl e, w) | (Inr v, w) \<Rightarrow> (Inr (Value v), w))"

definition DbQuery_lookup :: "string \<Rightarrow> jsval list \<Rightarrow> (chain_call + terminal_call) option" where
  "DbQuery_lookup name args =
     (if name = ''limit'' then Some (Inl (Call_limit (arg args 0)))
      else if name = ''skip'' then Some (Inl (Call_skip (arg args 0)))
      else if name = ''sort'' then Some (Inl (Call_sort (arg args 0) (arg args 1)))
      else if name = ''where'' then Some (Inl (Call_where (arg args 0) (arg args 1)))
      else if name = ''gt'' then Some (Inl (Call_gt (arg args 0) (arg args 1)))
      else if name = ''lt'' then Some (Inl (Call_lt (arg args 0) (arg args 1)))
      else if name = ''gte'' then Some (Inl (Call_gte (arg args 0) (arg args 1)))
      else if name = ''lte'' then Some (Inl (Call_lte (arg args 0) (arg args 1)))
      else if name = ''find'' then Some (Inr Call_find)
      else if name = ''findOne'' then Some (Inr Call_findOne)
      else if name = ''count'' then Some (Inr Call_count)
      else if name = ''remove'' then Some (Inr Call_remove)
      else None)"

definition Object_members :: "string list" where
  "Object_members =
     [''constructor'', ''hasOwnProperty'', ''isPrototypeOf'', ''propertyIsEnumerable'',
      ''toLocaleString'', ''toString'', ''valueOf'', ''__defineGetter__'', ''__defineSetter__'',
      ''__lookupGetter__'', ''__lookupSetter__'', ''__proto__'']"

definition DbQuery_invoke ::
  "plug \<Rightarrow> string \<Rightarrow> jsval list \<Rightarrow> nat \<Rightarrow> world \<Rightarrow> ((error + ret) \<times> world) option" where
  "DbQuery_invoke pl name args r w =
     (case DbQuery_lookup name args of
        Some (Inl c) \<Rightarrow> Some (chained (chain c r w))
      | Some (Inr t) \<Rightarrow> Some (terminal (terminal_action pl t r w))
      | None \<Rightarrow> (if name \<in> set Object_members then None else Some (Inl TypeError, w)))"

section \<open>The entity wrapper (src/model.js)\<close>

text \<open>
  \<open>model.js\<close> reads and writes fields through the package \<open>dot-prop\<close>, which is not
  part of these sources: its \<open>get (object, path)\<close> and \<open>set (object, path, value)\<close> are
  parameters, \<open>set\<close> returning the object as it is after the write. The string parser of
  the language's numeric conversion is the third parameter.
\<close>

record runtime =
  DotProp_get :: "jsval \<Rightarrow> jsval \<Rightarrow> jsval"
  DotProp_set :: "jsval \<Rightarrow> jsval \<Rightarrow> jsval \<Rightarrow> jsval"
  StringToNumber :: "string \<Rightarrow> jsval"

text \<open>A \<open>DbModel\<close> instance: its class (\<open>this.constructor\<close>), \<open>__data\<close> and \<open>__id\<close>.\<close>

record DbModel =
  m_class :: ModelClass
  m_data :: jsval
  m_id :: jsval

text \<open>\<open>new Model (data = {}, id = null)\<close>.\<close>

definition new_DbModel :: "ModelClass \<Rightarrow> jsval \<Rightarrow> jsval \<Rightarrow> DbModel" where
  "new_DbModel M data0 id0 =
     \<lparr>m_class = M, m_data = default_arg (JObj []) data0, m_id = default_arg JNull id0\<rparr>"

text \<open>
  \<open>Object.assign ({}, v)\<close>: a fresh object with the own enumerable properties of
  \<open>v\<close>, which for a string or an array are its indices, and none for any other primitive.
\<close>

definition indexed :: "jsval list \<Rightarrow> (string \<times> jsval) list" where
  "indexed xs = map (\<lambda>(i, x). (nat_to_dec i, x)) (enumerate 0 xs)"

fun Object_assign_empty :: "jsval \<Rightarrow> jsval" where
  "Object_assign_empty (JObj fs) = JObj fs"
| "Object_assign_empty (JArr xs) = JObj (indexed xs)"
| "Object_assign_empty (JStr s) = JObj (indexed (map (\<lambda>c. JStr [c]) s))"
| "Object_assign_empty v = JObj []"

text \<open>
  \<open>key.length === 0\<close>: reading \<open>length\<close> of null raises TypeError (undefined cannot
  reach the test, the parameter defaulting to the empty string); a string or an array has
  its length, an object its own property \<open>length\<close> if any, and a number or a boolean has
  none.
\<close>

fun length_is_zero :: "jsval \<Rightarrow> error + bool" where
  "length_is_zero JUndefined = Inl TypeError"
| "length_is_zero JNull = Inl TypeError"
| "length_is_zero (JStr s) = Inr (s = [])"
| "length_is_zero (JArr xs) = Inr (xs = [])"
| "length_is_zero (JObj fs) = Inr (map_of fs ''length'' = Some (JNum 0))"
| "length_is_zero v = Inr False"

text \<open>\<open>get (key = '')\<close>.\<close>

definition DbModel_get :: "runtime \<Rightarrow> jsval \<Rightarrow> DbModel \<Rightarrow> error + jsval" where
  "DbModel_get rt key0 m =
     (let key = default_arg (JStr []) key0 in
      case length_is_zero key of
        Inl e \<Rightarrow> Inl e
      | Inr z \<Rightarrow>
          (if z then Inr (Object_assign_empty (m_data m))
           else if key = JStr ''_id'' then Inr (m_id m)
           else Inr (DotProp_get rt (m_data m) key)))"

text \<open>
  \<open>increment (key, amt = 1)\<close> and \<open>decrement (key, amt = 1)\<close>; the instance after the
  call is returned, the methods themselves returning nothing. There is no outcome where
  the arithmetic has none.
\<close>

definition DbModel_increment ::
  "runtime \<Rightarrow> jsval \<Rightarrow> jsval \<Rightarrow> DbModel \<Rightarrow> (error + DbModel) option" where
  "DbModel_increment rt key amt0 m =
     (let amt = default_arg (JNum 1) amt0;
          currValue = DotProp_get rt (m_data m) key
      in case js_add (StringToNumber rt) currValue amt of
           None \<Rightarrow> None
         | Some (Inl e) \<Rightarrow> Some (Inl e)
         | Some (Inr v) \<Rightarrow> Some (Inr (m\<lparr>m_data := DotProp_set rt (m_data m) key v\<rparr>)))"

definition DbModel_decrement ::
  "runtime \<Rightarrow> jsval \<Rightarrow> jsval \<Rightarrow> DbModel \<Rightarrow> (error + DbModel) option" where
  "DbModel_decrement rt key amt0 m =
     (let amt = default_arg (JNum 1) amt0;
          currValue = DotProp_get rt (m_data m) key
      in case js_sub (StringToNumber rt) currValue amt of
           None \<Rightarrow> None
         | Some (Inl e) \<Rightarrow> Some (Inl e)
         | Some (Inr v) \<Rightarrow> Some (Inr (m\<lparr>m_data := DotProp_set rt (m_data m) key v\<rparr>)))"

text \<open>
  \<open>remove ()\<close> of an instance, statement by statement: the test of \<open>__id\<close>, the
  assignment \<open>this.__id = null\<close>, then the call
  \<open>this.constructor.__db.removeById (this.constructor, this.__id)\<close>, whose last
  argument is read from the instance after the assignment. The result is the outcome, the
  instance after the call and the world after the call.
\<close>

definition DbModel_remove :: "plug \<Rightarrow> DbModel \<Rightarrow> world \<Rightarrow> (error + jsval) \<times> DbModel \<times> world" where
  "DbModel_remove pl m w =
     (if eq_null (m_id m) then (Inl (Error ''Model not stored in database''), m, w)
      else
        (let m' = m\<lparr>m_id := JNull\<rparr> in
         case db_call pl (cls_db (m_class m')) (\<lambda>d. RemoveById d (m_class m') (m_id m')) w of
           (Inl e, w') \<Rightarrow> (Inl e, m', w')
         | (Inr v, w') \<Rightarrow> (Inr JUndefined, m', w')))"

subsection \<open>Static methods\<close>

text \<open>\<open>static __query ()\<close>: \<open>new DbQuery (this, this.__db)\<close>.\<close>

definition DbModel_query :: "ModelClass \<Rightarrow> world \<Rightarrow> nat \<times> world" where
  "DbModel_query M w = new_DbQuery M (cls_db M) w"

text \<open>
  The query-less actions \<open>find\<close>, \<open>findOne\<close>, \<open>count\<close>, \<open>sum\<close> and \<open>remove\<close> with
  \<open>filter = {}\<close>: \<open>this.__query ().where (filter)\<close> followed by the action.
\<close>

definition query_where :: "ModelClass \<Rightarrow> jsval \<Rightarrow> world \<Rightarrow> (error + nat) \<times> world" where
  "query_where M filter0 w =
     (case DbModel_query M w of
        (r, w1) \<Rightarrow> DbQuery_where (default_arg (JObj []) filter0) JUndefined r w1)"

definition DbModel_static_find :: "plug \<Rightarrow> ModelClass \<Rightarrow> jsval \<Rightarrow> world \<Rightarrow> (error + jsval) \<times> world" where
  "DbModel_static_find pl M filter0 w =
     (case query_where M filter0 w of
        (Inl e, w2) \<Rightarrow> (Inl e, w2)
      | (Inr r, w2) \<Rightarrow> DbQuery_find pl r w2)"

definition DbModel_static_findOne :: "plug \<Rightarrow> ModelClass \<Rightarrow> jsval \<Rightarrow> world \<Rightarrow> (error + jsval) \<times> world" where
  "DbModel_static_findOne pl M filter0 w =
     (case query_where M filter0 w of
        (Inl e, w2) \<Rightarrow> (Inl e, w2)
      | (Inr r, w2) \<Rightarrow> DbQuery_findOne pl r w2)"

definition DbModel_static_count :: "plug \<Rightarrow> ModelClass \<Rightarrow> jsval \<Rightarrow> world \<Rightarrow> (error + jsval) \<times> world" where
  "DbModel_static_count pl M filter0 w =
     (case query_where M filter0 w of
        (Inl e, w2) \<Rightarrow> (Inl e, w2)
      | (Inr r, w2) \<Rightarrow> DbQuery_count pl r w2)"

text \<open>
  \<open>static async sum (key, filter = {}) { return await this.__query ().where (filter).sum () }\<close>:
  the call \<open>.sum ()\<close> is resolved by name on the builder and is given no argument.
\<close>

definition DbModel_static_sum ::
  "plug \<Rightarrow> ModelClass \<Rightarrow> jsval \<Rightarrow> jsval \<Rightarrow> world \<Rightarrow> ((error + ret) \<times> world) option" where
  "DbModel_static_sum pl M key filter0 w =
     (case query_where M filter0 w of
        (Inl e, w2) \<Rightarrow> Some (Inl e, w2)
      | (Inr r, w2) \<Rightarrow> DbQuery_invoke pl ''sum'' [] r w2)"

definition DbModel_static_remove :: "plug \<Rightarrow> ModelClass \<Rightarrow> jsval \<Rightarrow> world \<Rightarrow> (error + jsval) \<times> world" where
  "DbModel_static_remove pl M filter0 w =
     (case query_where M filter0 w of
        (Inl e, w2) \<Rightarrow> (Inl e, w2)
      | (Inr r, w2) \<Rightarrow> DbQuery_remove pl r w2)"

text \<open>The query constructors: \<open>this.__query ()\<close> followed by one chain method.\<close>

definition DbModel_static_limit :: "ModelClass \<Rightarrow> jsval \<Rightarrow> world \<Rightarrow> (error + nat) \<times> world" where
  "DbModel_static_limit M amt w = (case DbModel_query M w of (r, w1) \<Rightarrow> DbQuery_limit amt r w1)"

definition DbModel_static_skip :: "ModelClass \<Rightarrow> jsval \<Rightarrow> world \<Rightarrow> (error + nat) \<times> world" where
  "DbModel_static_skip M amt w = (case DbModel_query M w of (r, w1) \<Rightarrow> DbQuery_skip amt r w1)"

definition DbModel_static_sort :: "ModelClass \<Rightarrow> jsval \<Rightarrow> jsval \<Rightarrow> world \<Rightarrow> (error + nat) \<times> world" where
  "DbModel_static_sort M key direction w =
     (case DbModel_query M w of (r, w1) \<Rightarrow> DbQuery_sort key direction r w1)"

definition DbModel_static_where :: "ModelClass \<Rightarrow> jsval \<Rightarrow> jsval \<Rightarrow> world \<Rightarrow> (error + nat) \<times> world" where
  "DbModel_static_where M key value w =
     (case DbModel_query M w of (r, w1) \<Rightarrow> DbQuery_where key value r w1)"

definition DbModel_static_gt :: "ModelClass \<Rightarrow> jsval \<Rightarrow> jsval \<Rightarrow> world \<Rightarrow> (error + nat) \<times> world" where
  "DbModel_static_gt M key min_v w = (case DbModel_query M w of (r, w1) \<Rightarrow> DbQuery_gt key min_v r w1)"

definition DbModel_static_lt :: "ModelClass \<Rightarrow> jsval \<Rightarrow> jsval \<Rightarrow> world \<Rightarrow> (error + nat) \<times> world" where
  "DbModel_static_lt M key max_v w = (case DbModel_query M w of (r, w1) \<Rightarrow> DbQuery_lt key max_v r w1)"

definition DbModel_static_gte :: "ModelClass \<Rightarrow> jsval \<Rightarrow> jsval \<Rightarrow> world \<Rightarrow> (error + nat) \<times> world" where
  "DbModel_static_gte M key min_v w = (case DbModel_query M w of (r, w1) \<Rightarrow> DbQuery_gte key min_v r w1)"

text \<open>\<open>static lte (key, max) { return this.__query ().gt (key, max) }\<close>.\<close>

definition DbModel_static_lte :: "ModelClass \<Rightarrow> jsval \<Rightarrow> jsval \<Rightarrow> world \<Rightarrow> (error + nat) \<times> world" where
  "DbModel_static_lte M key max_v w = (case DbModel_query M w of (r, w1) \<Rightarrow> DbQuery_gt key max_v r w1)"

subsection \<open>A dot-path resolver to run the wrapper on\<close>

text \<open>
  Modelled from the spec: the package \<open>dot-prop\<close> (\<open>DotProp.get\<close>, \<open>DotProp.set\<close>),
  which is not under src/. The spec describes it as nested-field access by dot-path:
  \<open>get\<close> returns the nested value at the path, or undefined if absent; \<open>set\<close> writes
  the value at the path. The path is split at its dots; \<open>set\<close> creates the objects
  missing on the way, and leaves alone what is not an object or is addressed by something
  other than a string. The theorems below hold for every \<open>runtime\<close>; this one serves to
  evaluate them on concrete entities, for any parser of numeric strings.
\<close>

fun split_dots :: "string \<Rightarrow> string \<Rightarrow> string list" where
  "split_dots acc [] = [rev acc]"
| "split_dots acc (c # cs) =
     (if c = CHR ''.'' then rev acc # split_dots [] cs else split_dots (c # acc) cs)"

fun get_path :: "jsval \<Rightarrow> string list \<Rightarrow> jsval" where
  "get_path v [] = v"
| "get_path (JObj fs) (p # ps) =
     (case map_of fs p of None \<Rightarrow> JUndefined | Some x \<Rightarrow> get_path x ps)"
| "get_path v (p # ps) = JUndefined"

fun put_field :: "string \<Rightarrow> jsval \<Rightarrow> (string \<times> jsval) list \<Rightarrow> (string \<times> jsval) list" where
  "put_field k v [] = [(k, v)]"
| "put_field k v ((k', v') # fs) = (if k' = k then (k, v) # fs else (k', v') # put_field k v fs)"

fun fields_of :: "jsval option \<Rightarrow> (string \<times> jsval) list" where
  "fields_of (Some (JObj fs)) = fs"
| "fields_of v = []"

fun set_path :: "(string \<times> jsval) list \<Rightarrow> string list \<Rightarrow> jsval \<Rightarrow> (string \<times> jsval) list" where
  "set_path fs [] x = fs"
| "set_path fs [p] x = put_field p x fs"
| "set_path fs (p # q # ps) x =
     put_field p (JObj (set_path (fields_of (map_of fs p)) (q # ps) x)) fs"

definition dot_get :: "jsval \<Rightarrow> jsval \<Rightarrow> jsval" where
  "dot_get obj path =
     (case (obj, path) of
        (JObj fs, JStr s) \<Rightarrow> get_path obj (split_dots [] s)
      | _ \<Rightarrow> obj)"

definition dot_set :: "jsval \<Rightarrow> jsval \<Rightarrow> jsval \<Rightarrow> jsval" where
  "dot_set obj path x =
     (case (obj, path) of
        (JObj fs, JStr s) \<Rightarrow> JObj (set_path fs (split_dots [] s) x)
      | _ \<Rightarrow> obj)"

definition dot_runtime :: "(string \<Rightarrow> jsval) \<Rightarrow> runtime" where
  "dot_runtime s2n = \<lparr>DotProp_get = dot_get, DotProp_set = dot_set, StringToNumber = s2n\<rparr>"

subsection \<open>Concrete entities to run the methods on\<close>

text \<open>
  An entity type registered with the Db API number 0, the world in which
  \<open>Model.__query ()\<close> has just made one builder (at reference 0), and a saved entity.
\<close>

definition demo_class :: ModelClass where
  "demo_class = ModelClass ''Model'' (Some 0)"

definition demo_world :: world where
  "demo_world = snd (DbModel_query demo_class empty_world)"

definition demo_entity :: DbModel where
  "demo_entity = new_DbModel demo_class (JObj [(''a'', JNum 1), (''_id'', JStr ''shadow'')]) (JStr ''id1'')"

text \<open>A Db API that answers every request with null.\<close>

definition null_plug :: plug where
  "null_plug cs = Inr JNull"

section \<open>Properties of the query builder\<close>

subsection \<open>What a chain call does to the store\<close>

lemma push_return_Some:
  "heap w r = Some q \<Longrightarrow>
   push_return p r w = (Inr r, w\<lparr>heap := (heap w)(r \<mapsto> q\<lparr>pts := pts q @ [p]\<rparr>)\<rparr>)"
  by (simp add: push_return_def)

lemma sort_outcome:
  "(\<exists>e. DbQuery_sort key d r w = (Inl e, w)) \<or>
   (\<exists>p. DbQuery_sort key d r w = push_return p r w)"
proof (cases "call_toString (default_arg (JStr ''desc'') d)")
  case (Inl e)
  then show ?thesis by (simp add: DbQuery_sort_def)
next
  case (Inr s)
  show ?thesis
  proof (cases "s = ''1'' \<or> s = ''asc'' \<or> s = ''ascending''")
    case True
    with Inr have "DbQuery_sort key d r w = push_return (Sort key False) r w"
      unfolding DbQuery_sort_def by simp
    then show ?thesis by blast
  next
    case asc: False
    show ?thesis
    proof (cases "s = ''-1'' \<or> s = ''desc'' \<or> s = ''descending''")
      case True
      with Inr asc have "DbQuery_sort key d r w = push_return (Sort key True) r w"
        unfolding DbQuery_sort_def by simp
      then show ?thesis by blast
    next
      case False
      with Inr asc have "DbQuery_sort key d r w = (Inl (Error ''Invalid sort value''), w)"
        unfolding DbQuery_sort_def by simp
      then show ?thesis by blast
    qed
  qed
qed

lemma where_outcome: "\<exists>p. DbQuery_where key v r w = push_return p r w"
proof (cases "instanceof_Object key \<and> eq_null (default_arg JNull v)")
  case True
  then have "DbQuery_where key v r w = push_return (Filter key) r w"
    unfolding DbQuery_where_def Let_def by simp
  then show ?thesis ..
next
  case False
  then have "DbQuery_where key v r w = push_return (WhereEquals key (default_arg JNull v)) r w"
    unfolding DbQuery_where_def Let_def by (rule if_not_P)
  then show ?thesis ..
qed

lemma lte_outcome: "DbQuery_lte key bound r w = (Inl (ReferenceError ''max''), w)"
  by (simp add: DbQuery_lte_def resolve_def)

lemma chain_outcome:
  "(\<exists>e. chain c r w = (Inl e, w)) \<or> (\<exists>p. chain c r w = push_return p r w)"
proof (cases c)
  case (Call_sort key d)
  then show ?thesis using sort_outcome[of key d r w] by simp
next
  case (Call_where key v)
  then show ?thesis using where_outcome[of key v r w] by simp
next
  case (Call_lte key b)
  then show ?thesis by (simp add: lte_outcome)
qed (simp_all add: DbQuery_limit_def DbQuery_skip_def DbQuery_gt_def DbQuery_lt_def
       DbQuery_gte_def, blast+)

text \<open>
  Claim C8. The operation list is append-only: for every chain call (\<open>limit\<close>,
  \<open>skip\<close>, \<open>sort\<close>, \<open>where\<close>, \<open>gt\<close>, \<open>lt\<close>, \<open>gte\<close>, \<open>lte\<close>) on a builder, the
  parts the builder held before are a prefix of the parts it holds afterwards, at most one
  part is added, its entity type and Db API stay, no other builder changes, no builder is
  created and no request is sent. A call that succeeds returns the reference it was called
  on and has added exactly one part; a call that fails leaves the world as it was.
\<close>

theorem chain_call_append_only:
  assumes "heap w r = Some q"
    and "chain c r w = (res, w')"
  shows "\<exists>q'. heap w' r = Some q' \<and> prefix (pts q) (pts q')
           \<and> length (pts q') \<le> Suc (length (pts q))
           \<and> q_Model q' = q_Model q \<and> q_db q' = q_db q
           \<and> (\<forall>r'. r' \<noteq> r \<longrightarrow> heap w' r' = heap w r')
           \<and> next_ref w' = next_ref w \<and> calls w' = calls w
           \<and> (\<forall>v. res = Inr v \<longrightarrow> v = r \<and> length (pts q') = Suc (length (pts q)))
           \<and> (\<forall>e. res = Inl e \<longrightarrow> w' = w)"
  using chain_outcome[of c r w]
proof
  assume "\<exists>e. chain c r w = (Inl e, w)"
  with assms(2) have "w' = w" and "\<exists>e. res = Inl e" by auto
  with assms(1) show ?thesis by auto
next
  assume "\<exists>p. chain c r w = push_return p r w"
  then obtain p where "chain c r w = push_return p r w" ..
  with assms have res: "res = Inr r"
    and w': "w' = w\<lparr>heap := (heap w)(r \<mapsto> q\<lparr>pts := pts q @ [p]\<rparr>)\<rparr>"
    by (simp_all add: push_return_Some)
  show ?thesis
    by (rule exI[of _ "q\<lparr>pts := pts q @ [p]\<rparr>"]) (simp add: res w')
qed


theorem chain_call_append_only_witness:
  "heap demo_world 0 = Some \<lparr>q_Model = demo_class, q_db = Some 0, pts = []\<rparr>
   \<and> chain (Call_sort (JStr ''a'') (JStr ''asc'')) 0 demo_world =
       (Inr 0, demo_world\<lparr>heap := (heap demo_world)
          (0 \<mapsto> \<lparr>q_Model = demo_class, q_db = Some 0, pts = [Sort (JStr ''a'') False]\<rparr>)\<rparr>)
   \<and> (\<exists>q'. heap (demo_world\<lparr>heap := (heap demo_world)
          (0 \<mapsto> \<lparr>q_Model = demo_class, q_db = Some 0, pts = [Sort (JStr ''a'') False]\<rparr>)\<rparr>) 0 = Some q'
        \<and> prefix [] (pts q') \<and> length (pts q') \<le> Suc 0 \<and> q_db q' = Some 0)"
proof -
  let ?q = "\<lparr>q_Model = demo_class, q_db = Some 0, pts = []\<rparr>"
  let ?w' = "demo_world\<lparr>heap := (heap demo_world)
          (0 \<mapsto> \<lparr>q_Model = demo_class, q_db = Some 0, pts = [Sort (JStr ''a'') False]\<rparr>)\<rparr>"
  have h1: "heap demo_world 0 = Some ?q"
    by (simp add: demo_world_def DbModel_query_def new_DbQuery_def empty_world_def demo_class_def)
  have h2: "chain (Call_sort (JStr ''a'') (JStr ''asc'')) 0 demo_world = (Inr 0, ?w')"
    by (simp add: DbQuery_sort_def call_toString_def default_arg_def push_return_Some[OF h1])
  from chain_call_append_only[OF h1 h2]
  have "\<exists>q'. heap ?w' 0 = Some q' \<and> prefix [] (pts q') \<and> length (pts q') \<le> Suc 0 \<and> q_db q' = Some 0"
    by auto
  with h1 h2 show ?thesis by blast
qed

subsection \<open>What a terminal action does to the world\<close>

lemma call_pts_request_of: "call_pts (request_of t d M r ps) = ps"
  by (cases t) simp_all

lemma terminal_unbound:
  assumes "heap w r = Some q" and "q_db q = None"
  shows "terminal_action pl t r w = (Inl TypeError, w)"
  using assms
  by (cases t)
    (simp_all add: DbQuery_find_def DbQuery_findOne_def DbQuery_count_def DbQuery_remove_def
      db_call_def)

lemma terminal_bound:
  assumes "heap w r = Some q" and "q_db q = Some d"
  shows "snd (terminal_action pl t r w) =
           w\<lparr>calls := calls w @ [request_of t d (q_Model q) r (pts q)]\<rparr>"
  using assms
  by (cases t)
    (simp_all add: DbQuery_find_def DbQuery_findOne_def DbQuery_count_def DbQuery_remove_def
      db_call_def split: sum.splits)

text \<open>
  Claim C7. Each terminal action (\<open>find\<close>, \<open>findOne\<close>, \<open>count\<close>, \<open>remove\<close>) leaves
  the store of builders, and so the builder's operation list, unchanged. Invoking two
  terminal actions in a row on the same builder sends two requests, both carrying the
  operation list the builder held before the first; on a builder with no Db API both
  fail with TypeError and nothing is sent.
\<close>

theorem terminal_keeps_parts:
  assumes "heap w r = Some q"
    and "terminal_action pl t1 r w = (res1, w1)"
    and "terminal_action pl' t2 r w1 = (res2, w2)"
  shows "heap w1 = heap w \<and> heap w2 = heap w \<and> next_ref w2 = next_ref w
         \<and> (case q_db q of
               None \<Rightarrow> calls w2 = calls w \<and> res1 = Inl TypeError \<and> res2 = Inl TypeError
             | Some d \<Rightarrow>
                 calls w1 = calls w @ [request_of t1 d (q_Model q) r (pts q)]
                 \<and> calls w2 = calls w @ [request_of t1 d (q_Model q) r (pts q),
                                           request_of t2 d (q_Model q) r (pts q)]
                 \<and> call_pts (request_of t1 d (q_Model q) r (pts q)) = pts q
                 \<and> call_pts (request_of t2 d (q_Model q) r (pts q)) = pts q)"
proof (cases "q_db q")
  case None
  from terminal_unbound[OF assms(1) None, of pl t1] assms(2)
  have 1: "res1 = Inl TypeError" "w1 = w" by simp_all
  from terminal_unbound[OF assms(1) None, of pl' t2] assms(3) 1
  have 2: "res2 = Inl TypeError" "w2 = w" by simp_all
  from 1 2 None show ?thesis by simp
next
  case (Some d)
  from terminal_bound[OF assms(1) Some, of pl t1] assms(2)
  have w1: "w1 = w\<lparr>calls := calls w @ [request_of t1 d (q_Model q) r (pts q)]\<rparr>" by simp
  then have h1: "heap w1 r = Some q" using assms(1) by simp
  from terminal_bound[OF h1 Some, of pl' t2] assms(3)
  have w2: "w2 = w1\<lparr>calls := calls w1 @ [request_of t2 d (q_Model q) r (pts q)]\<rparr>" by simp
  from w1 w2 Some show ?thesis by (simp add: call_pts_request_of)
qed

theorem terminal_keeps_parts_witness:
  "heap demo_world 0 = Some \<lparr>q_Model = demo_class, q_db = Some 0, pts = []\<rparr>
   \<and> terminal_action null_plug Call_find 0 demo_world =
        (Inr JNull, demo_world\<lparr>calls := [FindModels 0 demo_class 0 []]\<rparr>)
   \<and> terminal_action null_plug Call_count 0 (demo_world\<lparr>calls := [FindModels 0 demo_class 0 []]\<rparr>) =
        (Inr JNull, demo_world\<lparr>calls := [FindModels 0 demo_class 0 [], CountModels 0 demo_class 0 []]\<rparr>)
   \<and> heap (demo_world\<lparr>calls := [FindModels 0 demo_class 0 [], CountModels 0 demo_class 0 []]\<rparr>)
        = heap demo_world"
proof -
  let ?q = "\<lparr>q_Model = demo_class, q_db = Some 0, pts = []\<rparr>"
  let ?w1 = "demo_world\<lparr>calls := [FindModels 0 demo_class 0 []]\<rparr>"
  let ?w2 = "demo_world\<lparr>calls := [FindModels 0 demo_class 0 [], CountModels 0 demo_class 0 []]\<rparr>"
  have h1: "heap demo_world 0 = Some ?q"
    by (simp add: demo_world_def DbModel_query_def new_DbQuery_def empty_world_def demo_class_def)
  have c: "calls demo_world = []"
    by (simp add: demo_world_def DbModel_query_def new_DbQuery_def empty_world_def)
  have h2: "terminal_action null_plug Call_find 0 demo_world = (Inr JNull, ?w1)"
    by (simp add: DbQuery_find_def h1 db_call_def null_plug_def c)
  have h3: "terminal_action null_plug Call_count 0 ?w1 = (Inr JNull, ?w2)"
    by (simp add: DbQuery_count_def h1 db_call_def null_plug_def)
  from terminal_keeps_parts[OF h1 h2 h3] have "heap ?w2 = heap demo_world" by simp
  with h1 h2 h3 show ?thesis by blast
qed

subsection \<open>Sort directions\<close>

lemma push_return_pushed:
  "heap w r = Some q \<Longrightarrow> push_return p r w = (Inr r, pushed p r q w)"
  by (simp add: push_return_def pushed_def)

lemma int_to_dec_1: "int_to_dec 1 = ''1''"
  by code_simp

lemma int_to_dec_minus_1: "int_to_dec (- 1) = ''-1''"
  by code_simp

lemma sort_by_string:
  assumes "call_toString (default_arg (JStr ''desc'') d) = Inr s"
  shows "DbQuery_sort key d r w =
          (if s = ''1'' \<or> s = ''asc'' \<or> s = ''ascending'' then push_return (Sort key False) r w
           else if s = ''-1'' \<or> s = ''desc'' \<or> s = ''descending'' then push_return (Sort key True) r w
           else (Inl (Error ''Invalid sort value''), w))"
  using assms unfolding DbQuery_sort_def by simp

lemma sort_asc:
  assumes "call_toString d = Inr s" and "d \<noteq> JUndefined"
    and "s = ''1'' \<or> s = ''asc'' \<or> s = ''ascending''"
  shows "DbQuery_sort key d r w = push_return (Sort key False) r w"
proof -
  from assms(1,2) have "call_toString (default_arg (JStr ''desc'') d) = Inr s"
    by (simp add: default_arg_def)
  from sort_by_string[OF this] assms(3) show ?thesis by simp
qed

lemma sort_desc:
  assumes "call_toString d = Inr s" and "d \<noteq> JUndefined"
    and "s = ''-1'' \<or> s = ''desc'' \<or> s = ''descending''"
  shows "DbQuery_sort key d r w = push_return (Sort key True) r w"
proof -
  from assms(1,2) have "call_toString (default_arg (JStr ''desc'') d) = Inr s"
    by (simp add: default_arg_def)
  from sort_by_string[OF this, of key r w] assms(3) show ?thesis by auto
qed

lemma sort_default: "DbQuery_sort key JUndefined r w = push_return (Sort key True) r w"
proof -
  have "call_toString (default_arg (JStr ''desc'') JUndefined) = Inr ''desc''"
    by (simp add: default_arg_def call_toString_def)
  from sort_by_string[OF this] show ?thesis by simp
qed

lemma sort_other:
  assumes "call_toString d = Inr s" and "d \<noteq> JUndefined"
    and "s \<noteq> ''1''" "s \<noteq> ''asc''" "s \<noteq> ''ascending''"
    and "s \<noteq> ''-1''" "s \<noteq> ''desc''" "s \<noteq> ''descending''"
  shows "DbQuery_sort key d r w = (Inl (Error ''Invalid sort value''), w)"
proof -
  from assms(1,2) have "call_toString (default_arg (JStr ''desc'') d) = Inr s"
    by (simp add: default_arg_def)
  from sort_by_string[OF this, of key r w] assms(3-) show ?thesis by simp
qed

lemma sort_unconvertible:
  assumes "call_toString d = Inl e" and "d \<noteq> JUndefined"
  shows "DbQuery_sort key d r w = (Inl e, w)"
  using assms unfolding DbQuery_sort_def by (simp add: default_arg_def)


text \<open>
  Claim C5, as the code has it. \<open>sort (key, direction)\<close> turns the direction into a
  string with its \<open>toString\<close> and compares the string exactly, letter case included:
  \<open>1\<close>, \<open>"1"\<close>, \<open>"asc"\<close> and \<open>"ascending"\<close> append an ascending sort part; \<open>-1\<close>,
  \<open>"-1"\<close>, \<open>"desc"\<close>, \<open>"descending"\<close> and an omitted direction append a descending one;
  the builder's reference is returned. A direction whose string is none of the six
  spellings fails with the error \<open>Invalid sort value\<close>, a direction with no string
  conversion fails with the conversion's error, and a failed call leaves the world as it
  was, so it appends nothing.
\<close>

theorem sort_direction_exact:
  assumes "heap w r = Some q"
  shows "DbQuery_sort key (JNum 1) r w = (Inr r, pushed (Sort key False) r q w)
       \<and> DbQuery_sort key (JStr ''1'') r w = (Inr r, pushed (Sort key False) r q w)
       \<and> DbQuery_sort key (JStr ''asc'') r w = (Inr r, pushed (Sort key False) r q w)
       \<and> DbQuery_sort key (JStr ''ascending'') r w = (Inr r, pushed (Sort key False) r q w)
       \<and> DbQuery_sort key (JNum (- 1)) r w = (Inr r, pushed (Sort key True) r q w)
       \<and> DbQuery_sort key (JStr ''-1'') r w = (Inr r, pushed (Sort key True) r q w)
       \<and> DbQuery_sort key (JStr ''desc'') r w = (Inr r, pushed (Sort key True) r q w)
       \<and> DbQuery_sort key (JStr ''descending'') r w = (Inr r, pushed (Sort key True) r q w)
       \<and> DbQuery_sort key JUndefined r w = (Inr r, pushed (Sort key True) r q w)
       \<and> (\<forall>s. d \<noteq> JUndefined \<and> call_toString d = Inr s
               \<and> s \<noteq> ''1'' \<and> s \<noteq> ''asc'' \<and> s \<noteq> ''ascending''
               \<and> s \<noteq> ''-1'' \<and> s \<noteq> ''desc'' \<and> s \<noteq> ''descending''
             \<longrightarrow> DbQuery_sort key d r w = (Inl (Error ''Invalid sort value''), w))
       \<and> (\<forall>e. d \<noteq> JUndefined \<and> call_toString d = Inl e
             \<longrightarrow> DbQuery_sort key d r w = (Inl e, w))"
proof -
  note p = push_return_pushed[OF assms]
  have a1: "DbQuery_sort key (JNum 1) r w = (Inr r, pushed (Sort key False) r q w)"
    using sort_asc[of "JNum 1" "''1''" key r w] by (simp add: call_toString_def int_to_dec_1 p)
  have a2: "DbQuery_sort key (JStr ''1'') r w = (Inr r, pushed (Sort key False) r q w)"
    using sort_asc[of "JStr ''1''" "''1''" key r w] by (simp add: call_toString_def p)
  have a3: "DbQuery_sort key (JStr ''asc'') r w = (Inr r, pushed (Sort key False) r q w)"
    using sort_asc[of "JStr ''asc''" "''asc''" key r w] by (simp add: call_toString_def p)
  have a4: "DbQuery_sort key (JStr ''ascending'') r w = (Inr r, pushed (Sort key False) r q w)"
    using sort_asc[of "JStr ''ascending''" "''ascending''" key r w]
    by (simp add: call_toString_def p)
  have d1: "DbQuery_sort key (JNum (- 1)) r w = (Inr r, pushed (Sort key True) r q w)"
    using sort_desc[of "JNum (- 1)" "''-1''" key r w]
    by (simp add: call_toString_def int_to_dec_minus_1 p)
  have d2: "DbQuery_sort key (JStr ''-1'') r w = (Inr r, pushed (Sort key True) r q w)"
    using sort_desc[of "JStr ''-1''" "''-1''" key r w] by (simp add: call_toString_def p)
  have d3: "DbQuery_sort key (JStr ''desc'') r w = (Inr r, pushed (Sort key True) r q w)"
    using sort_desc[of "JStr ''desc''" "''desc''" key r w] by (simp add: call_toString_def p)
  have d4: "DbQuery_sort key (JStr ''descending'') r w = (Inr r, pushed (Sort key True) r q w)"
    using sort_desc[of "JStr ''descending''" "''descending''" key r w]
    by (simp add: call_toString_def p)
  have d5: "DbQuery_sort key JUndefined r w = (Inr r, pushed (Sort key True) r q w)"
    by (simp add: sort_default p)
  have o: "\<forall>s. d \<noteq> JUndefined \<and> call_toString d = Inr s
               \<and> s \<noteq> ''1'' \<and> s \<noteq> ''asc'' \<and> s \<noteq> ''ascending''
               \<and> s \<noteq> ''-1'' \<and> s \<noteq> ''desc'' \<and> s \<noteq> ''descending''
             \<longrightarrow> DbQuery_sort key d r w = (Inl (Error ''Invalid sort value''), w)"
    using sort_other[of d _ key r w] by blast
  have u: "\<forall>e. d \<noteq> JUndefined \<and> call_toString d = Inl e
             \<longrightarrow> DbQuery_sort key d r w = (Inl e, w)"
    using sort_unconvertible[of d _ key r w] by blast
  from a1 a2 a3 a4 d1 d2 d3 d4 d5 o u show ?thesis by (intro conjI)
qed


lemma demo_world_builder:
  "heap demo_world 0 = Some \<lparr>q_Model = demo_class, q_db = Some 0, pts = []\<rparr>"
  by (simp add: demo_world_def DbModel_query_def new_DbQuery_def empty_world_def demo_class_def)

theorem sort_direction_exact_witness:
  "heap demo_world 0 = Some \<lparr>q_Model = demo_class, q_db = Some 0, pts = []\<rparr>
   \<and> DbQuery_sort (JStr ''age'') (JStr ''asc'') 0 demo_world =
        (Inr 0, pushed (Sort (JStr ''age'') False) 0 \<lparr>q_Model = demo_class, q_db = Some 0, pts = []\<rparr> demo_world)
   \<and> DbQuery_sort (JStr ''age'') JUndefined 0 demo_world =
        (Inr 0, pushed (Sort (JStr ''age'') True) 0 \<lparr>q_Model = demo_class, q_db = Some 0, pts = []\<rparr> demo_world)
   \<and> call_toString (JBool True) = Inr ''true''
   \<and> DbQuery_sort (JStr ''age'') (JBool True) 0 demo_world = (Inl (Error ''Invalid sort value''), demo_world)
   \<and> call_toString JNull = Inl TypeError
   \<and> DbQuery_sort (JStr ''age'') JNull 0 demo_world = (Inl TypeError, demo_world)"
proof -
  have t: "call_toString (JBool True) = Inr ''true''" by (simp add: call_toString_def)
  have n: "call_toString JNull = Inl TypeError" by (simp add: call_toString_def)
  from sort_direction_exact[OF demo_world_builder, of "JStr ''age''" "JBool True"] t
  have 1: "DbQuery_sort (JStr ''age'') (JStr ''asc'') 0 demo_world =
        (Inr 0, pushed (Sort (JStr ''age'') False) 0 \<lparr>q_Model = demo_class, q_db = Some 0, pts = []\<rparr> demo_world)"
    and 2: "DbQuery_sort (JStr ''age'') JUndefined 0 demo_world =
        (Inr 0, pushed (Sort (JStr ''age'') True) 0 \<lparr>q_Model = demo_class, q_db = Some 0, pts = []\<rparr> demo_world)"
    and 3: "DbQuery_sort (JStr ''age'') (JBool True) 0 demo_world = (Inl (Error ''Invalid sort value''), demo_world)"
    by simp_all
  from sort_direction_exact[OF demo_world_builder, of "JStr ''age''" JNull] n
  have 4: "DbQuery_sort (JStr ''age'') JNull 0 demo_world = (Inl TypeError, demo_world)"
    by simp
  from demo_world_builder 1 2 t 3 n 4 show ?thesis by (intro conjI)
qed

text \<open>
  The claim as stated fails: \<open>"ASC"\<close> and \<open>"Descending"\<close> differ from the accepted
  spellings only in letter case, and both are refused.
\<close>

theorem sort_uppercase_counterexample:
  "DbQuery_sort (JStr ''age'') (JStr ''ASC'') 0 demo_world = (Inl (Error ''Invalid sort value''), demo_world)
   \<and> DbQuery_sort (JStr ''age'') (JStr ''Descending'') 0 demo_world =
        (Inl (Error ''Invalid sort value''), demo_world)"
proof -
  have 1: "DbQuery_sort (JStr ''age'') (JStr ''ASC'') 0 demo_world = (Inl (Error ''Invalid sort value''), demo_world)"
    by (rule sort_other[of _ "''ASC''"]) (simp_all add: call_toString_def)
  have 2: "DbQuery_sort (JStr ''age'') (JStr ''Descending'') 0 demo_world =
        (Inl (Error ''Invalid sort value''), demo_world)"
    by (rule sort_other[of _ "''Descending''"]) (simp_all add: call_toString_def)
  from 1 2 show ?thesis ..
qed

subsection \<open>The arguments of where\<close>

text \<open>
  Claim C6, as the code has it. \<open>where (key, value)\<close> never fails. With a mapping (or
  array) as key and a value that is omitted or null it appends one filter part; with a
  mapping as key and any other value it appends one whereEquals part holding the mapping
  as \<open>prop\<close> and that value; with a key that is not an object it appends one whereEquals
  part holding the key and the value, null when the value is omitted. The builder's
  reference is returned in every case.
\<close>

theorem where_part_by_arguments:
  assumes "heap w r = Some q"
  shows "(instanceof_Object key \<and> eq_null v
            \<longrightarrow> DbQuery_where key v r w = (Inr r, pushed (Filter key) r q w))
       \<and> (instanceof_Object key \<and> \<not> eq_null v
            \<longrightarrow> DbQuery_where key v r w = (Inr r, pushed (WhereEquals key v) r q w))
       \<and> (\<not> instanceof_Object key
            \<longrightarrow> DbQuery_where key v r w =
                  (Inr r, pushed (WhereEquals key (default_arg JNull v)) r q w))"
proof -
  note p = push_return_pushed[OF assms]
  have e: "eq_null (default_arg JNull v) = eq_null v"
    by (cases v) (simp_all add: default_arg_def)
  have d: "\<not> eq_null v \<Longrightarrow> default_arg JNull v = v"
    by (cases v) (simp_all add: default_arg_def)
  show ?thesis
    unfolding DbQuery_where_def Let_def by (simp add: e d p)
qed

theorem where_part_by_arguments_witness:
  "heap demo_world 0 = Some \<lparr>q_Model = demo_class, q_db = Some 0, pts = []\<rparr>
   \<and> instanceof_Object (JObj [(''a'', JNum 1)]) \<and> eq_null JUndefined \<and> \<not> eq_null (JNum 5)
   \<and> \<not> instanceof_Object (JStr ''a'')
   \<and> DbQuery_where (JObj [(''a'', JNum 1)]) JUndefined 0 demo_world =
       (Inr 0, pushed (Filter (JObj [(''a'', JNum 1)])) 0
                 \<lparr>q_Model = demo_class, q_db = Some 0, pts = []\<rparr> demo_world)
   \<and> DbQuery_where (JObj [(''a'', JNum 1)]) (JNum 5) 0 demo_world =
       (Inr 0, pushed (WhereEquals (JObj [(''a'', JNum 1)]) (JNum 5)) 0
                 \<lparr>q_Model = demo_class, q_db = Some 0, pts = []\<rparr> demo_world)
   \<and> DbQuery_where (JStr ''a'') (JNum 5) 0 demo_world =
       (Inr 0, pushed (WhereEquals (JStr ''a'') (JNum 5)) 0
                 \<lparr>q_Model = demo_class, q_db = Some 0, pts = []\<rparr> demo_world)"
proof -
  have i: "instanceof_Object (JObj [(''a'', JNum 1)])" "eq_null JUndefined" "\<not> eq_null (JNum 5)"
    "\<not> instanceof_Object (JStr ''a'')" by simp_all
  from where_part_by_arguments[OF demo_world_builder, of "JObj [(''a'', JNum 1)]" JUndefined] i
  have 1: "DbQuery_where (JObj [(''a'', JNum 1)]) JUndefined 0 demo_world =
       (Inr 0, pushed (Filter (JObj [(''a'', JNum 1)])) 0
                 \<lparr>q_Model = demo_class, q_db = Some 0, pts = []\<rparr> demo_world)" by simp
  from where_part_by_arguments[OF demo_world_builder, of "JObj [(''a'', JNum 1)]" "JNum 5"] i
  have 2: "DbQuery_where (JObj [(''a'', JNum 1)]) (JNum 5) 0 demo_world =
       (Inr 0, pushed (WhereEquals (JObj [(''a'', JNum 1)]) (JNum 5)) 0
                 \<lparr>q_Model = demo_class, q_db = Some 0, pts = []\<rparr> demo_world)" by simp
  from where_part_by_arguments[OF demo_world_builder, of "JStr ''a''" "JNum 5"] i
  have 3: "DbQuery_where (JStr ''a'') (JNum 5) 0 demo_world =
       (Inr 0, pushed (WhereEquals (JStr ''a'') (JNum 5)) 0
                 \<lparr>q_Model = demo_class, q_db = Some 0, pts = []\<rparr> demo_world)"
    by (simp add: default_arg_def)
  from demo_world_builder i 1 2 3 show ?thesis by (intro conjI)
qed

text \<open>
  The claim as stated fails: a mapping together with the non-null value 5 raises no error
  and appends a whereEquals part.
\<close>

theorem where_mapping_and_value_counterexample:
  "DbQuery_where (JObj [(''a'', JNum 1)]) (JNum 5) 0 demo_world =
     (Inr 0, demo_world\<lparr>heap := (heap demo_world)
        (0 \<mapsto> \<lparr>q_Model = demo_class, q_db = Some 0,
                 pts = [WhereEquals (JObj [(''a'', JNum 1)]) (JNum 5)]\<rparr>)\<rparr>)"
  by (simp add: DbQuery_where_def default_arg_def push_return_Some[OF demo_world_builder])

subsection \<open>Methods the class does not have, or has wrong\<close>

lemma query_new:
  "DbModel_query M w =
     (next_ref w,
      w\<lparr>heap := (heap w)(next_ref w \<mapsto> \<lparr>q_Model = M, q_db = cls_db M, pts = []\<rparr>),
        next_ref := Suc (next_ref w)\<rparr>)"
  by (simp add: DbModel_query_def new_DbQuery_def)

text \<open>
  Claim C1 does not hold of the code. \<open>DbQuery.lte\<close> names its second parameter
  \<open>min\<close> and reads \<open>max\<close>: every call raises ReferenceError and appends nothing.
  The static \<open>lte\<close> of the entity type calls \<open>gt\<close>: the builder it returns holds one
  \<open>gt\<close> part, with the bound as its \<open>min\<close>.
\<close>

theorem lte_raises_and_static_lte_is_gt:
  "DbQuery_lte key bound r w = (Inl (ReferenceError ''max''), w)
   \<and> DbModel_static_lte M key bound w =
       (Inr (next_ref w),
        w\<lparr>heap := (heap w)(next_ref w \<mapsto> \<lparr>q_Model = M, q_db = cls_db M, pts = [Gt bound key]\<rparr>),
          next_ref := Suc (next_ref w)\<rparr>)"
  by (simp add: lte_outcome DbModel_static_lte_def query_new DbQuery_gt_def push_return_def)

text \<open>
  Claim C2 does not hold of the code. The class \<open>DbQuery\<close> defines none of \<open>ne\<close>,
  \<open>nin\<close>, \<open>match\<close>, \<open>elem\<close>, \<open>or\<close>, \<open>and\<close>: calling any of them on a builder raises
  TypeError and leaves the world, the builder's parts included, as it was.
\<close>

theorem ne_nin_match_elem_or_and_missing:
  "DbQuery_invoke pl ''ne'' args r w = Some (Inl TypeError, w)
   \<and> DbQuery_invoke pl ''nin'' args r w = Some (Inl TypeError, w)
   \<and> DbQuery_invoke pl ''match'' args r w = Some (Inl TypeError, w)
   \<and> DbQuery_invoke pl ''elem'' args r w = Some (Inl TypeError, w)
   \<and> DbQuery_invoke pl ''or'' args r w = Some (Inl TypeError, w)
   \<and> DbQuery_invoke pl ''and'' args r w = Some (Inl TypeError, w)"
  by (simp add: DbQuery_invoke_def DbQuery_lookup_def Object_members_def)

text \<open>
  Claim C4 does not hold of the code. The class \<open>DbQuery\<close> defines no \<open>sum\<close>: calling it
  on a builder raises TypeError and sends nothing to the Db API. The static \<open>sum\<close> of the
  entity type makes a builder, appends the filter and then makes that call, without the
  key: it fails the same way, whatever the key and the filter, with nothing sent.
\<close>

theorem sum_missing:
  "DbQuery_invoke pl ''sum'' args r w = Some (Inl TypeError, w)
   \<and> (\<exists>w'. DbModel_static_sum pl M key flt w = Some (Inl TypeError, w') \<and> calls w' = calls w)"
proof -
  have 1: "DbQuery_invoke pl ''sum'' args r w = Some (Inl TypeError, w)" for args r w
    by (simp add: DbQuery_invoke_def DbQuery_lookup_def Object_members_def)
  obtain p where p: "DbQuery_where (default_arg (JObj []) flt) JUndefined (next_ref w) (snd (DbModel_query M w))
      = push_return p (next_ref w) (snd (DbModel_query M w))"
    using where_outcome by blast
  have 2: "DbModel_static_sum pl M key flt w =
      Some (Inl TypeError, pushed p (next_ref w) \<lparr>q_Model = M, q_db = cls_db M, pts = []\<rparr> (snd (DbModel_query M w)))"
    using p
    by (simp add: DbModel_static_sum_def query_where_def query_new 1 push_return_def pushed_def)
  have 3: "calls (pushed p (next_ref w) \<lparr>q_Model = M, q_db = cls_db M, pts = []\<rparr> (snd (DbModel_query M w))) = calls w"
    by (simp add: pushed_def query_new)
  from 1 2 3 show ?thesis by blast
qed

section \<open>Properties of the entity wrapper\<close>

text \<open>
  Claim C3 does not hold of the code for a saved entity. \<open>remove ()\<close> assigns null to
  \<open>__id\<close> before it reads \<open>__id\<close> for the call: the Db API is asked to remove the
  identity null, never the identity the entity had. The identity is null afterwards, as
  claimed.
\<close>

theorem remove_sends_null_identity:
  "snd (DbModel_remove pl \<lparr>m_class = ModelClass n (Some d), m_data = dat, m_id = JStr i\<rparr> w) =
     (\<lparr>m_class = ModelClass n (Some d), m_data = dat, m_id = JNull\<rparr>,
      w\<lparr>calls := calls w @ [RemoveById d (ModelClass n (Some d)) JNull]\<rparr>)"
  by (simp add: DbModel_remove_def db_call_def Let_def split: sum.splits)

text \<open>An entity with no identity is refused, stays as it was, and nothing is sent.\<close>

lemma remove_unsaved:
  "eq_null (m_id m) \<Longrightarrow>
   DbModel_remove pl m w = (Inl (Error ''Model not stored in database''), m, w)"
  by (simp add: DbModel_remove_def)

lemma add_undefined: "js_add s2n JUndefined (JNum n) = Some (Inr JNaN)"
  by (simp add: js_add_def ToPrimitive_def)

lemma sub_undefined: "js_sub s2n JUndefined (JNum n) = Some (Inr JNaN)"
  by (simp add: js_sub_def ToPrimitive_def)

text \<open>
  Claim C9. \<open>increment (key)\<close> and \<open>decrement (key)\<close> on an entity whose data has no
  value at the key (\<open>DotProp.get\<close> gives undefined) raise no error: with the amount
  omitted, or any number given, the sum and the difference are NaN, and NaN is what
  \<open>DotProp.set\<close> is given to store at the key.
\<close>

theorem increment_decrement_absent_store_NaN:
  assumes "DotProp_get rt (m_data m) key = JUndefined"
    and "amt = JUndefined \<or> amt = JNum n"
  shows "DbModel_increment rt key amt m = Some (Inr (m\<lparr>m_data := DotProp_set rt (m_data m) key JNaN\<rparr>))
       \<and> DbModel_decrement rt key amt m = Some (Inr (m\<lparr>m_data := DotProp_set rt (m_data m) key JNaN\<rparr>))"
proof -
  from assms(2) obtain k where k: "default_arg (JNum 1) amt = JNum k"
    by (auto simp: default_arg_def)
  show ?thesis
    by (simp add: DbModel_increment_def DbModel_decrement_def Let_def assms(1) k
        add_undefined sub_undefined)
qed

theorem increment_decrement_absent_store_NaN_witness:
  "\<forall>s2n. DotProp_get (dot_runtime s2n) (m_data demo_entity) (JStr ''views.total'') = JUndefined
     \<and> DbModel_increment (dot_runtime s2n) (JStr ''views.total'') JUndefined demo_entity =
         Some (Inr (demo_entity\<lparr>m_data := JObj [(''a'', JNum 1), (''_id'', JStr ''shadow''),
                                           (''views'', JObj [(''total'', JNaN)])]\<rparr>))
     \<and> DbModel_decrement (dot_runtime s2n) (JStr ''views.total'') (JNum 2) demo_entity =
         Some (Inr (demo_entity\<lparr>m_data := JObj [(''a'', JNum 1), (''_id'', JStr ''shadow''),
                                           (''views'', JObj [(''total'', JNaN)])]\<rparr>))"
proof
  fix s2n
  let ?rt = "dot_runtime s2n"
  have d: "m_data demo_entity = JObj [(''a'', JNum 1), (''_id'', JStr ''shadow'')]"
    by (simp add: demo_entity_def new_DbModel_def default_arg_def)
  have g: "DotProp_get ?rt (m_data demo_entity) (JStr ''views.total'') = JUndefined"
    by (simp add: dot_runtime_def dot_get_def d)
  have s: "DotProp_set ?rt (m_data demo_entity) (JStr ''views.total'') JNaN =
             JObj [(''a'', JNum 1), (''_id'', JStr ''shadow''), (''views'', JObj [(''total'', JNaN)])]"
    by (simp add: dot_runtime_def dot_set_def d)
  from increment_decrement_absent_store_NaN[OF g, of JUndefined 0]
  have 1: "DbModel_increment ?rt (JStr ''views.total'') JUndefined demo_entity =
         Some (Inr (demo_entity\<lparr>m_data := JObj [(''a'', JNum 1), (''_id'', JStr ''shadow''),
                                           (''views'', JObj [(''total'', JNaN)])]\<rparr>))"
    by (simp add: s)
  from increment_decrement_absent_store_NaN[OF g, of "JNum 2" 2]
  have 2: "DbModel_decrement ?rt (JStr ''views.total'') (JNum 2) demo_entity =
         Some (Inr (demo_entity\<lparr>m_data := JObj [(''a'', JNum 1), (''_id'', JStr ''shadow''),
                                           (''views'', JObj [(''total'', JNaN)])]\<rparr>))"
    by (simp add: s)
  from g 1 2 show "DotProp_get ?rt (m_data demo_entity) (JStr ''views.total'') = JUndefined
     \<and> DbModel_increment ?rt (JStr ''views.total'') JUndefined demo_entity =
         Some (Inr (demo_entity\<lparr>m_data := JObj [(''a'', JNum 1), (''_id'', JStr ''shadow''),
                                           (''views'', JObj [(''total'', JNaN)])]\<rparr>))
     \<and> DbModel_decrement ?rt (JStr ''views.total'') (JNum 2) demo_entity =
         Some (Inr (demo_entity\<lparr>m_data := JObj [(''a'', JNum 1), (''_id'', JStr ''shadow''),
                                           (''views'', JObj [(''total'', JNaN)])]\<rparr>))"
    by (intro conjI)
qed

subsection \<open>What get answers, key by key\<close>

lemma get_by_key:
  "DbModel_get rt key m =
     (case length_is_zero (default_arg (JStr []) key) of
        Inl e \<Rightarrow> Inl e
      | Inr z \<Rightarrow>
          (if z then Inr (Object_assign_empty (m_data m))
           else if default_arg (JStr []) key = JStr ''_id'' then Inr (m_id m)
           else Inr (DotProp_get rt (m_data m) (default_arg (JStr []) key))))"
  by (simp add: DbModel_get_def Let_def)

lemma get_other_key:
  assumes "length_is_zero key = Inr False" and "key \<noteq> JStr ''_id''"
  shows "DbModel_get rt key m = Inr (DotProp_get rt (m_data m) key)"
proof -
  from assms(1) have "key \<noteq> JUndefined" by auto
  then have "default_arg (JStr []) key = key" by (simp add: default_arg_def)
  with assms show ?thesis by (simp add: get_by_key)
qed

lemma get_zero_length:
  assumes "length_is_zero key = Inr True"
  shows "DbModel_get rt key m = Inr (Object_assign_empty (m_data m))"
proof -
  from assms have "key \<noteq> JUndefined" by auto
  then have "default_arg (JStr []) key = key" by (simp add: default_arg_def)
  with assms show ?thesis by (simp add: get_by_key)
qed

lemma get_ignores_path_id:
  assumes "\<forall>d k. k \<noteq> JStr ''_id'' \<longrightarrow> DotProp_get rt' d k = DotProp_get rt d k"
  shows "DbModel_get rt' key m = DbModel_get rt key m"
proof (cases "default_arg (JStr []) key = JStr ''_id''")
  case True
  then show ?thesis by (simp add: get_by_key)
next
  case False
  with assms have "DotProp_get rt' (m_data m) (default_arg (JStr []) key)
      = DotProp_get rt (m_data m) (default_arg (JStr []) key)" by blast
  with False show ?thesis by (simp add: get_by_key split: sum.splits)
qed

text \<open>
  In the dot-path resolver the only string path whose segments are the single segment
  \<open>_id\<close>, the top-level field, is \<open>_id\<close> itself; a longer path such as \<open>_id.x\<close>
  addresses a value inside that field, not the field.
\<close>

lemma split_dots_nonempty: "split_dots acc s \<noteq> []"
  by (induction s arbitrary: acc) auto

lemma split_dots_single:
  "(split_dots acc s = [p]) = (CHR ''.'' \<notin> set s \<and> p = rev acc @ s)"
proof (induction s arbitrary: acc)
  case Nil
  show ?case by auto
next
  case (Cons c cs)
  show ?case
  proof (cases "c = CHR ''.''")
    case True
    then show ?thesis using split_dots_nonempty[of "[]" cs] by simp
  next
    case False
    then show ?thesis using Cons.IH[of "c # acc"] by simp
  qed
qed

lemma resolver_path_to_id_field: "(split_dots [] k = [''_id'']) = (k = ''_id'')"
  by (auto simp: split_dots_single)

text \<open>
  Claim C10. \<open>get ("_id")\<close> returns the entity's identity whatever the data holds, a
  top-level data field named \<open>_id\<close> included. That field is unreachable through
  \<open>get\<close>: the one path that names it, \<open>_id\<close>, is answered with the identity, every
  other key of non-zero length is handed to \<open>DotProp.get\<close> as it is, so
  \<open>DotProp.get\<close> is never consulted at the path \<open>_id\<close> and what \<open>get\<close> returns is
  the same for any two dot-prop implementations that differ only at that path. \<open>get ()\<close>,
  \<open>get ("")\<close> and every key of length zero return a copy of the whole data mapping, that
  field included with its value; \<open>get (null)\<close> raises TypeError.
\<close>

theorem get_id_is_identity:
  "DbModel_get rt (JStr ''_id'') m = Inr (m_id m)
   \<and> DbModel_get rt (JStr ''_id'') (m\<lparr>m_data := JObj ((''_id'', v) # fs)\<rparr>) = Inr (m_id m)
   \<and> DbModel_get rt JUndefined (m\<lparr>m_data := JObj ((''_id'', v) # fs)\<rparr>) = Inr (JObj ((''_id'', v) # fs))
   \<and> DbModel_get rt (JStr '''') (m\<lparr>m_data := JObj ((''_id'', v) # fs)\<rparr>) = Inr (JObj ((''_id'', v) # fs))
   \<and> DbModel_get rt JUndefined (m\<lparr>m_data := JObj fs\<rparr>) = Inr (JObj fs)
   \<and> DbModel_get rt (JStr ''_id'') (m\<lparr>m_data := d\<rparr>) = Inr (m_id m)
   \<and> (length_is_zero key = Inr False \<and> key \<noteq> JStr ''_id''
        \<longrightarrow> DbModel_get rt key m = Inr (DotProp_get rt (m_data m) key))
   \<and> ((\<forall>d k. k \<noteq> JStr ''_id'' \<longrightarrow> DotProp_get rt' d k = DotProp_get rt d k)
        \<longrightarrow> DbModel_get rt' key m = DbModel_get rt key m)
   \<and> (length_is_zero key = Inr True
        \<longrightarrow> DbModel_get rt key m = Inr (Object_assign_empty (m_data m)))
   \<and> DbModel_get rt JUndefined m = Inr (Object_assign_empty (m_data m))
   \<and> DbModel_get rt JNull m = Inl TypeError"
proof -
  have 1: "DbModel_get rt (JStr ''_id'') m = Inr (m_id m)" for m
    by (simp add: get_by_key default_arg_def)
  have 3: "DbModel_get rt JUndefined m = Inr (Object_assign_empty (m_data m))" for m
    by (simp add: get_by_key default_arg_def)
  have 4: "DbModel_get rt (JStr '''') m = Inr (Object_assign_empty (m_data m))" for m
    by (simp add: get_by_key default_arg_def)
  have 5: "DbModel_get rt JNull m = Inl TypeError"
    by (simp add: get_by_key default_arg_def)
  have 6: "length_is_zero key = Inr False \<and> key \<noteq> JStr ''_id''
        \<longrightarrow> DbModel_get rt key m = Inr (DotProp_get rt (m_data m) key)"
    using get_other_key by blast
  have 7: "(\<forall>d k. k \<noteq> JStr ''_id'' \<longrightarrow> DotProp_get rt' d k = DotProp_get rt d k)
        \<longrightarrow> DbModel_get rt' key m = DbModel_get rt key m"
    using get_ignores_path_id by blast
  have 8: "length_is_zero key = Inr True
        \<longrightarrow> DbModel_get rt key m = Inr (Object_assign_empty (m_data m))"
    using get_zero_length by blast
  show ?thesis
    using 1[of m] 1[of "m\<lparr>m_data := JObj ((''_id'', v) # fs)\<rparr>"] 1[of "m\<lparr>m_data := d\<rparr>"]
      3[of "m\<lparr>m_data := JObj ((''_id'', v) # fs)\<rparr>"] 3[of "m\<lparr>m_data := JObj fs\<rparr>"] 3[of m]
      4[of "m\<lparr>m_data := JObj ((''_id'', v) # fs)\<rparr>"] 5 6 7 8
    by simp
qed

theorem get_id_is_identity_witness:
  "\<forall>s2n. DbModel_get (dot_runtime s2n) (JStr ''_id'') demo_entity = Inr (JStr ''id1'')
     \<and> DbModel_get (dot_runtime s2n) JUndefined demo_entity =
         Inr (JObj [(''a'', JNum 1), (''_id'', JStr ''shadow'')])
     \<and> length_is_zero (JStr ''a'') = Inr False
     \<and> DbModel_get (dot_runtime s2n) (JStr ''a'') demo_entity = Inr (JNum 1)
     \<and> length_is_zero (JArr []) = Inr True
     \<and> DbModel_get (dot_runtime s2n) (JArr []) demo_entity =
         Inr (JObj [(''a'', JNum 1), (''_id'', JStr ''shadow'')])
     \<and> DotProp_get (dot_runtime s2n) (m_data demo_entity) (JStr ''_id'') = JStr ''shadow''
     \<and> DbModel_get
          ((dot_runtime s2n)\<lparr>DotProp_get :=
             \<lambda>d k. if k = JStr ''_id'' then JStr ''poison'' else dot_get d k\<rparr>)
          (JStr ''_id'') demo_entity = Inr (JStr ''id1'')"
proof
  fix s2n
  let ?rt = "dot_runtime s2n"
  let ?rt' = "?rt\<lparr>DotProp_get := \<lambda>d k. if k = JStr ''_id'' then JStr ''poison'' else dot_get d k\<rparr>"
  let ?fs = "[(''a'', JNum 1), (''_id'', JStr ''shadow'')]"
  have d: "m_data demo_entity = JObj ?fs" and i: "m_id demo_entity = JStr ''id1''"
    by (simp_all add: demo_entity_def new_DbModel_def default_arg_def)
  have e: "demo_entity\<lparr>m_data := JObj ?fs\<rparr> = demo_entity"
    by (simp add: demo_entity_def new_DbModel_def default_arg_def)
  have za: "length_is_zero (JStr ''a'') = Inr False" and zb: "length_is_zero (JArr []) = Inr True"
    by simp_all
  have ga: "DotProp_get ?rt (m_data demo_entity) (JStr ''a'') = JNum 1"
    and gi: "DotProp_get ?rt (m_data demo_entity) (JStr ''_id'') = JStr ''shadow''"
    by (simp_all add: dot_runtime_def dot_get_def d)
  have agree: "\<forall>d k. k \<noteq> JStr ''_id'' \<longrightarrow> DotProp_get ?rt' d k = DotProp_get ?rt d k"
    by (simp add: dot_runtime_def)
  from get_id_is_identity[of ?rt demo_entity JNull ?fs JNull "JStr ''a''" ?rt'] za ga i e agree
  have 1: "DbModel_get ?rt (JStr ''_id'') demo_entity = Inr (JStr ''id1'')"
    and 2: "DbModel_get ?rt JUndefined demo_entity = Inr (JObj ?fs)"
    and 3: "DbModel_get ?rt (JStr ''a'') demo_entity = Inr (JNum 1)"
    by simp_all
  from get_id_is_identity[of ?rt demo_entity JNull ?fs JNull "JArr []" ?rt'] zb d
  have 4: "DbModel_get ?rt (JArr []) demo_entity = Inr (JObj ?fs)"
    by simp
  from get_id_is_identity[of ?rt demo_entity JNull ?fs JNull "JStr ''_id''" ?rt'] agree
  have "DbModel_get ?rt' (JStr ''_id'') demo_entity = DbModel_get ?rt (JStr ''_id'') demo_entity"
    by blast
  with 1 have 5: "DbModel_get ?rt' (JStr ''_id'') demo_entity = Inr (JStr ''id1'')" by simp
  from 1 2 za 3 zb 4 gi 5
  show "DbModel_get ?rt (JStr ''_id'') demo_entity = Inr (JStr ''id1'')
     \<and> DbModel_get ?rt JUndefined demo_entity = Inr (JObj ?fs)
     \<and> length_is_zero (JStr ''a'') = Inr False
     \<and> DbModel_get ?rt (JStr ''a'') demo_entity = Inr (JNum 1)
     \<and> length_is_zero (JArr []) = Inr True
     \<and> DbModel_get ?rt (JArr []) demo_entity = Inr (JObj ?fs)
     \<and> DotProp_get ?rt (m_data demo_entity) (JStr ''_id'') = JStr ''shadow''
     \<and> DbModel_get ?rt' (JStr ''_id'') demo_entity = Inr (JStr ''id1'')"
    by (intro conjI)
qed

end
